theory Spec2Isabelle
  imports Complex_Main "HOL-Library.Sublist"
begin

section \<open>Numbers\<close>

text \<open>
  The program computes with JavaScript numbers. They are modelled as real numbers with
  exact arithmetic: a finite number is itself, and rounding error is outside the model.
  NaN and the infinities are added where a property is about every number, for
  \<open>qualityToCRF\<close> below. \<open>Math.round\<close> rounds to the nearest integer, a tie going
  up, so it is the floor of the argument plus one half; \<open>Math.max\<close> and
  \<open>Math.min\<close> are \<open>max\<close> and \<open>min\<close>.
\<close>

definition Math_round :: "real \<Rightarrow> int" where
  "Math_round v = \<lfloor>v + 1 / 2\<rfloor>"

section \<open>VideoProcessor.qualityToCRF\<close>

definition qualityToCRF :: "real \<Rightarrow> int" where
  "qualityToCRF quality =
     (let minCRF = 18;
          maxCRF = 28;
          crf = maxCRF - ((quality - 40) / 60) * (maxCRF - minCRF)
      in Math_round (max minCRF (min maxCRF crf)))"

text \<open>
  The quality mapping as the specification words it: the linear formula, then rounded,
  then clamped to the interval from 18 to 28.
\<close>

definition spec_quality_param :: "real \<Rightarrow> int" where
  "spec_quality_param quality =
     max 18 (min 28 (Math_round (28 - ((quality - 40) / 60) * (28 - 18))))"

section \<open>qualityToCRF on every JavaScript number\<close>

text \<open>
  A JavaScript number is NaN, an infinity or a finite number. The arithmetic below is that
  of JavaScript on these, exact on the finite numbers: NaN in an operand gives NaN, an
  infinity minus itself is NaN, an infinity times 0 is NaN, an infinity divided by an
  infinity is NaN and 0 divided by 0 is NaN. The sign of a zero is not kept; a zero
  divisor is taken as the positive zero. \<open>Math.min\<close>, \<open>Math.max\<close> and
  \<open>Math.round\<close> give NaN for NaN, and \<open>Math.round\<close> leaves an infinity as it is.
\<close>

datatype number = NaN | NegInfinity | Fin real | Infinity

fun number_minus :: "number \<Rightarrow> number \<Rightarrow> number" where
  "number_minus NaN b = NaN"
| "number_minus a NaN = NaN"
| "number_minus (Fin a) (Fin b) = Fin (a - b)"
| "number_minus (Fin a) Infinity = NegInfinity"
| "number_minus (Fin a) NegInfinity = Infinity"
| "number_minus Infinity (Fin b) = Infinity"
| "number_minus Infinity NegInfinity = Infinity"
| "number_minus Infinity Infinity = NaN"
| "number_minus NegInfinity (Fin b) = NegInfinity"
| "number_minus NegInfinity Infinity = NegInfinity"
| "number_minus NegInfinity NegInfinity = NaN"

text \<open>The infinity of the sign of a finite number other than 0, times an infinity.\<close>

definition signed_infinity :: "real \<Rightarrow> number \<Rightarrow> number" where
  "signed_infinity a infinity =
     (if 0 < a then infinity else if infinity = Infinity then NegInfinity else Infinity)"

fun number_times :: "number \<Rightarrow> number \<Rightarrow> number" where
  "number_times NaN b = NaN"
| "number_times a NaN = NaN"
| "number_times (Fin a) (Fin b) = Fin (a * b)"
| "number_times (Fin a) Infinity = (if a = 0 then NaN else signed_infinity a Infinity)"
| "number_times (Fin a) NegInfinity = (if a = 0 then NaN else signed_infinity a NegInfinity)"
| "number_times Infinity (Fin b) = (if b = 0 then NaN else signed_infinity b Infinity)"
| "number_times NegInfinity (Fin b) = (if b = 0 then NaN else signed_infinity b NegInfinity)"
| "number_times Infinity Infinity = Infinity"
| "number_times Infinity NegInfinity = NegInfinity"
| "number_times NegInfinity Infinity = NegInfinity"
| "number_times NegInfinity NegInfinity = Infinity"

fun number_divide :: "number \<Rightarrow> number \<Rightarrow> number" where
  "number_divide NaN b = NaN"
| "number_divide a NaN = NaN"
| "number_divide (Fin a) (Fin b) =
     (if b = 0 then (if a = 0 then NaN else signed_infinity a Infinity) else Fin (a / b))"
| "number_divide (Fin a) Infinity = Fin 0"
| "number_divide (Fin a) NegInfinity = Fin 0"
| "number_divide Infinity (Fin b) = (if b = 0 then Infinity else signed_infinity b Infinity)"
| "number_divide NegInfinity (Fin b) =
     (if b = 0 then NegInfinity else signed_infinity b NegInfinity)"
| "number_divide Infinity Infinity = NaN"
| "number_divide Infinity NegInfinity = NaN"
| "number_divide NegInfinity Infinity = NaN"
| "number_divide NegInfinity NegInfinity = NaN"

fun Math_min :: "number \<Rightarrow> number \<Rightarrow> number" where
  "Math_min NaN b = NaN"
| "Math_min a NaN = NaN"
| "Math_min NegInfinity b = NegInfinity"
| "Math_min a NegInfinity = NegInfinity"
| "Math_min Infinity b = b"
| "Math_min a Infinity = a"
| "Math_min (Fin a) (Fin b) = Fin (min a b)"

fun Math_max :: "number \<Rightarrow> number \<Rightarrow> number" where
  "Math_max NaN b = NaN"
| "Math_max a NaN = NaN"
| "Math_max Infinity b = Infinity"
| "Math_max a Infinity = Infinity"
| "Math_max NegInfinity b = b"
| "Math_max a NegInfinity = a"
| "Math_max (Fin a) (Fin b) = Fin (max a b)"

fun Math_round_number :: "number \<Rightarrow> number" where
  "Math_round_number (Fin v) = Fin (of_int (Math_round v))"
| "Math_round_number v = v"

text \<open>
  \<open>qualityToCRF\<close> as it is written, on every JavaScript number. On a finite number it
  is the function of the section before.
\<close>

definition qualityToCRF_number :: "number \<Rightarrow> number" where
  "qualityToCRF_number quality =
     (let minCRF = Fin 18;
          maxCRF = Fin 28;
          crf = number_minus maxCRF
                  (number_times (number_divide (number_minus quality (Fin 40)) (Fin 60))
                     (number_minus maxCRF minCRF))
      in Math_round_number (Math_max minCRF (Math_min maxCRF crf)))"

section \<open>Data model\<close>

text \<open>
  The interfaces of \<open>types/index.ts\<close>. Field names that clash with each other or with
  a constant of the logic carry a prefix. A crop area is the object with the fields
  \<open>x\<close>, \<open>y\<close>, \<open>width\<close> and \<open>height\<close>; it is used both for the selection on the
  screen and for the crop in the pixels of the video.
\<close>

record crop_rect =
  crop_x :: real
  crop_y :: real
  crop_width :: real
  crop_height :: real

record ClipSegment =
  clip_id :: string
  mediaId :: string
  startTime :: real
  endTime :: real
  cropArea :: crop_rect
  thumbnail :: string
  createdAt :: nat

datatype export_format = mp4 | gif

datatype quality_preset = high | medium | low

record ExportSettings =
  format :: export_format
  quality :: real
  fps :: "real option"
  preset :: "quality_preset option"

datatype media_type = Video | Image | Gif

record dimensions =
  dim_width :: real
  dim_height :: real

text \<open>
  Of a media file the model keeps the fields the modelled functions read: its identifier,
  type, file contents, URL and dimensions.
\<close>

record MediaFile =
  media_id :: string
  media_kind :: media_type
  media_file :: "nat list"
  url :: string
  dimensions :: dimensions

text \<open>Of the container's \<open>DOMRect\<close> the code reads the width and the height.\<close>

record DOMRect =
  rect_width :: real
  rect_height :: real

record time_range =
  range_start :: real
  range_end :: real

section \<open>Errors\<close>

text \<open>
  A JavaScript \<open>Error\<close> carries a message and nothing else. The messages of the
  program are fixed texts, some with the message of a caught error spliced in; each text
  is a constructor, and a spliced message is its argument:
  \<^item> \<open>External\<close>: the message of an error raised by the browser or by the engine;
  \<^item> \<open>AllSourcesFailed\<close>: thrown by \<open>VideoProcessor.initialize\<close> after the loop
    over the sources, when none has loaded;
  \<^item> \<open>InitFailedCheckNetwork\<close>: thrown by the outer \<open>catch\<close> of
    \<open>VideoProcessor.initialize\<close>, the caught message followed by the advice to check the
    network or reload the page;
  \<^item> \<open>InitFailed\<close>: thrown by \<open>ExportHandler.initializeFFmpeg\<close> around the caught
    message;
  \<^item> \<open>NotInitialized\<close>: thrown by \<open>processVideoClip\<close> when the engine is not loaded;
  \<^item> \<open>ProcessingFailed\<close>: thrown by the \<open>catch\<close> of \<open>processVideoClip\<close>
    around the caught message;
  \<^item> \<open>DownloadFailed\<close>: thrown by the \<open>catch\<close> of \<open>downloadFile\<close>.
\<close>

datatype message =
    External string
  | AllSourcesFailed
  | InitFailedCheckNetwork message
  | InitFailed message
  | NotInitialized
  | ProcessingFailed message
  | DownloadFailed

section \<open>VideoProcessor.buildFFmpegCommand\<close>

text \<open>
  The conversion of a number to its decimal text, which JavaScript performs in
  \<open>toString\<close> and in template literals, is a parameter \<open>toString\<close>.
\<close>

definition format_text :: "export_format \<Rightarrow> string" where
  "format_text f = (case f of mp4 \<Rightarrow> ''mp4'' | gif \<Rightarrow> ''gif'')"

definition cropFilter :: "(real \<Rightarrow> string) \<Rightarrow> ClipSegment \<Rightarrow> string" where
  "cropFilter toString clip =
     ''crop='' @ toString (of_int (Math_round (crop_width (cropArea clip)))) @ '':''
       @ toString (of_int (Math_round (crop_height (cropArea clip)))) @ '':''
       @ toString (of_int (Math_round (crop_x (cropArea clip)))) @ '':''
       @ toString (of_int (Math_round (crop_y (cropArea clip))))"

text \<open>\<open>settings.fps || 15\<close>: an absent frame rate and the frame rate 0 give 15.\<close>

definition fps_or_default :: "ExportSettings \<Rightarrow> real" where
  "fps_or_default settings =
     (case fps settings of None \<Rightarrow> 15 | Some f \<Rightarrow> if f = 0 then 15 else f)"

definition paletteFilter :: "(real \<Rightarrow> string) \<Rightarrow> ClipSegment \<Rightarrow> ExportSettings \<Rightarrow> string" where
  "paletteFilter toString clip settings =
     cropFilter toString clip @ '',fps='' @ toString (fps_or_default settings)
       @ '',scale=320:-1:flags=lanczos,palettegen''"

definition gifFilter :: "(real \<Rightarrow> string) \<Rightarrow> ClipSegment \<Rightarrow> ExportSettings \<Rightarrow> string" where
  "gifFilter toString clip settings =
     cropFilter toString clip @ '',fps='' @ toString (fps_or_default settings)
       @ '',scale=320:-1:flags=lanczos[x];[x][1:v]paletteuse''"

definition buildFFmpegCommand ::
  "(real \<Rightarrow> string) \<Rightarrow> string \<Rightarrow> string \<Rightarrow> ClipSegment \<Rightarrow> ExportSettings \<Rightarrow> string list" where
  "buildFFmpegCommand toString inputFile outputFile clip settings =
     (let command = [''-i'', inputFile];
          command = command @ [''-ss'', toString (startTime clip)];
          command = command @ [''-t'', toString (endTime clip - startTime clip)];
          command =
            (case format settings of
               mp4 \<Rightarrow>
                 command @ [''-vf'', cropFilter toString clip]
                   @ [''-c:v'', ''libx264'']
                   @ [''-preset'', ''fast'']
                   @ [''-crf'', toString (of_int (qualityToCRF (quality settings)))]
                   @ [''-c:a'', ''aac'']
                   @ [''-b:a'', ''128k'']
             | gif \<Rightarrow>
                 command @ [''-vf'', paletteFilter toString clip settings]
                   @ [''-y'', ''palette.png'']
                   @ [''-i'', ''palette.png'']
                   @ [''-filter_complex'', gifFilter toString clip settings]
                   @ [''-loop'', ''0''])
      in command @ [outputFile])"

section \<open>useVideoEditor: clip creation\<close>

definition getSelectedDuration :: "time_range \<Rightarrow> real" where
  "getSelectedDuration timeRange = range_end timeRange - range_start timeRange"

definition canAddToClips :: "time_range \<Rightarrow> bool" where
  "canAddToClips timeRange = (getSelectedDuration timeRange > 1 / 10)"

text \<open>
  How the video is shown in its container (\<open>object-contain\<close>): the size at which
  it is displayed and the offsets that centre it. One offset is the gap beside the
  displayed video, the other is 0. Division is that of the real numbers; it is the
  division of JavaScript where the divisor is not 0, which is the case for a video and a
  container of positive width and height.
\<close>

record placement =
  displayWidth :: real
  displayHeight :: real
  offsetX :: real
  offsetY :: real

definition display_placement :: "MediaFile \<Rightarrow> DOMRect \<Rightarrow> placement" where
  "display_placement media containerRect =
     (let containerAspect = rect_width containerRect / rect_height containerRect;
          videoAspect = dim_width (dimensions media) / dim_height (dimensions media)
      in if videoAspect > containerAspect
         then \<lparr>displayWidth = rect_width containerRect,
               displayHeight = rect_width containerRect / videoAspect,
               offsetX = 0,
               offsetY = (rect_height containerRect - rect_width containerRect / videoAspect) / 2\<rparr>
         else \<lparr>displayWidth = rect_height containerRect * videoAspect,
               displayHeight = rect_height containerRect,
               offsetX = (rect_width containerRect - rect_height containerRect * videoAspect) / 2,
               offsetY = 0\<rparr>)"

text \<open>
  The crop of a new clip, in the pixels of the video. Without a selection or without a
  container it is the whole frame. Otherwise the selection is moved by the offsets, scaled,
  and cut to the frame: the origin by \<open>Math.max\<close>, the size by \<open>Math.min\<close>, and the
  two assignments after them reduce a size that passes the far edge. The fields of the
  object are the variables \<open>vx\<close>, \<open>vy\<close>, \<open>vwidth\<close> and \<open>vheight\<close>.
\<close>

definition finalCropArea :: "MediaFile \<Rightarrow> crop_rect option \<Rightarrow> DOMRect option \<Rightarrow> crop_rect" where
  "finalCropArea media selection container =
     (case (selection, container) of
        (Some selected, Some containerRect) \<Rightarrow>
          (let p = display_placement media containerRect;
               scaleX = dim_width (dimensions media) / displayWidth p;
               scaleY = dim_height (dimensions media) / displayHeight p;
               vx = max 0 ((crop_x selected - offsetX p) * scaleX);
               vy = max 0 ((crop_y selected - offsetY p) * scaleY);
               vwidth = min (crop_width selected * scaleX) (dim_width (dimensions media));
               vheight = min (crop_height selected * scaleY) (dim_height (dimensions media));
               vwidth = (if vx + vwidth > dim_width (dimensions media)
                         then dim_width (dimensions media) - vx else vwidth);
               vheight = (if vy + vheight > dim_height (dimensions media)
                          then dim_height (dimensions media) - vy else vheight)
           in \<lparr>crop_x = vx, crop_y = vy, crop_width = vwidth, crop_height = vheight\<rparr>)
      | _ \<Rightarrow>
          \<lparr>crop_x = 0, crop_y = 0,
           crop_width = dim_width (dimensions media),
           crop_height = dim_height (dimensions media)\<rparr>)"

text \<open>
  What the hook takes from its surroundings: the two thumbnail generators of
  \<open>utils/video.ts\<close>, which draw on a canvas of the browser and either give the URL of
  an image or fail, the fresh identifier and the time of creation.
\<close>

record editor_env =
  generateCroppedThumbnail :: "string \<Rightarrow> real \<Rightarrow> crop_rect \<Rightarrow> real \<Rightarrow> real \<Rightarrow> message + string"
  generateVideoThumbnail :: "string \<Rightarrow> real \<Rightarrow> real \<Rightarrow> real \<Rightarrow> message + string"
  fresh_id :: string
  clock :: nat

text \<open>The body of the \<open>try\<close> block: the value it gives the thumbnail, or the error it throws.\<close>

definition generate_thumbnail ::
  "editor_env \<Rightarrow> time_range \<Rightarrow> crop_rect option \<Rightarrow> MediaFile \<Rightarrow> crop_rect \<Rightarrow> message + string" where
  "generate_thumbnail env timeRange selection media final =
     (if media_kind media = Video \<or> media_kind media = Gif
      then (let thumbnailTime = range_start timeRange + (range_end timeRange - range_start timeRange) / 2
            in case selection of
                 Some _ \<Rightarrow> generateCroppedThumbnail env (url media) thumbnailTime final 320 180
               | None \<Rightarrow> generateVideoThumbnail env (url media) thumbnailTime 320 180)
      else Inr (url media))"

definition createClipSegment ::
  "editor_env \<Rightarrow> time_range \<Rightarrow> crop_rect option \<Rightarrow> MediaFile \<Rightarrow> DOMRect option \<Rightarrow> ClipSegment option" where
  "createClipSegment env timeRange selection media container =
     (if \<not> canAddToClips timeRange then None
      else
        (let final = finalCropArea media selection container;
             thumb = (case generate_thumbnail env timeRange selection media final of
                        Inl caught \<Rightarrow> url media
                      | Inr generated \<Rightarrow> generated)
         in Some \<lparr>clip_id = fresh_id env,
                  mediaId = media_id media,
                  startTime = range_start timeRange,
                  endTime = range_end timeRange,
                  cropArea = final,
                  thumbnail = thumb,
                  createdAt = clock env\<rparr>))"

section \<open>Observable events\<close>

text \<open>
  The functions below return, beside their result, the list of what they did that can be
  seen from outside, in order: a call of the progress callback, a warning written to the
  console for a source that failed, a run of the engine on the command built for a clip,
  and a file handed to the browser for download. Runs and downloads carry the position of
  their clip in the batch. The progress that the engine reports while it runs is not
  recorded.
\<close>

datatype export_status = preparing | processing | completed | error

datatype progress_text =
    TextInitializing
  | TextLoading int
  | TextProcessingClip nat nat
  | TextBatchDone nat
  | TextBatchFailed message

record ExportProgress =
  clipIndex :: nat
  clipTotal :: nat
  processingProgress :: real
  status :: export_status
  progress_message :: progress_text

record Blob =
  blob_data :: "nat list"
  blob_type :: string

datatype event =
    Report ExportProgress
  | Warn string message
  | Transcode nat "string list"
  | Download nat Blob string

section \<open>VideoProcessor.initialize\<close>

text \<open>
  The attempt to load the engine from one source: fetching the core script can fail,
  fetching the binary can fail, instantiating the engine can fail, or the engine loads.
\<close>

datatype load_attempt =
    CoreFetchFails message
  | WasmFetchFails message
  | LoadFails message
  | Loaded

definition cdnSources :: "string list" where
  "cdnSources =
     [''https://unpkg.com/@ffmpeg/core@0.12.6/dist/esm'',
      ''https://cdn.jsdelivr.net/npm/@ffmpeg/core@0.12.6/dist/esm'',
      ''https://unpkg.com/@ffmpeg/core-mt@0.12.6/dist/esm'']"

text \<open>
  The state of the two singletons: \<open>isLoaded\<close> of the video processor and
  \<open>isFFmpegInitialized\<close> of the export handler.
\<close>

record app_state =
  isLoaded :: bool
  isFFmpegInitialized :: bool

text \<open>
  The loop over the sources; the flag returned is \<open>loadSuccess\<close>. The callback
  \<open>onProgress\<close> is given as the progress it reports for a ratio.
\<close>

fun load_from_sources ::
  "(string \<Rightarrow> load_attempt) \<Rightarrow> (real \<Rightarrow> ExportProgress) \<Rightarrow> string list
     \<Rightarrow> event list \<times> bool" where
  "load_from_sources network onProgress [] = ([], False)"
| "load_from_sources network onProgress (baseURL # rest) =
     (case network baseURL of
        CoreFetchFails e \<Rightarrow>
          (case load_from_sources network onProgress rest of
             (events, loadSuccess) \<Rightarrow>
               ([Report (onProgress (1 / 10)), Warn baseURL e] @ events, loadSuccess))
      | WasmFetchFails e \<Rightarrow>
          (case load_from_sources network onProgress rest of
             (events, loadSuccess) \<Rightarrow>
               ([Report (onProgress (1 / 10)), Report (onProgress (3 / 10)), Warn baseURL e]
                  @ events, loadSuccess))
      | LoadFails e \<Rightarrow>
          (case load_from_sources network onProgress rest of
             (events, loadSuccess) \<Rightarrow>
               ([Report (onProgress (1 / 10)), Report (onProgress (3 / 10)),
                 Report (onProgress (6 / 10)), Warn baseURL e] @ events, loadSuccess))
      | Loaded \<Rightarrow>
          ([Report (onProgress (1 / 10)), Report (onProgress (3 / 10)),
            Report (onProgress (6 / 10)), Report (onProgress 1)], True))"

text \<open>
  When no source loads, the inner \<open>throw\<close> raises the fixed message
  \<open>AllSourcesFailed\<close>; the outer \<open>catch\<close> raises a new error whose message is that
  message between a fixed prefix and a fixed advice to check the network.
\<close>

definition initialize ::
  "(string \<Rightarrow> load_attempt) \<Rightarrow> (real \<Rightarrow> ExportProgress) \<Rightarrow> app_state
     \<Rightarrow> app_state \<times> event list \<times> (message + unit)" where
  "initialize network onProgress st =
     (if isLoaded st then (st, [], Inr ())
      else
        (case load_from_sources network onProgress cdnSources of
           (events, loadSuccess) \<Rightarrow>
             (case (if \<not> loadSuccess then Inl AllSourcesFailed else Inr ()) of
                Inl e \<Rightarrow> (st, events, Inl (InitFailedCheckNetwork e))
              | Inr _ \<Rightarrow> (st\<lparr>isLoaded := True\<rparr>, events, Inr ()))))"

section \<open>VideoProcessor.processVideoClip\<close>

text \<open>
  One use of the engine for a clip: writing the input file, running the command, reading
  the output file or deleting the two files can fail; otherwise the bytes of the output
  file are read.
\<close>

datatype engine_run =
    WriteFileFails message
  | ExecFails message
  | ReadFileFails message
  | DeleteFileFails message
  | Output "nat list"

definition processVideoClip ::
  "(real \<Rightarrow> string) \<Rightarrow> (nat list \<Rightarrow> string list \<Rightarrow> engine_run) \<Rightarrow> app_state \<Rightarrow> nat
     \<Rightarrow> nat list \<Rightarrow> ClipSegment \<Rightarrow> ExportSettings \<Rightarrow> event list \<times> (message + Blob)" where
  "processVideoClip toString ffmpeg st i videoFile clip settings =
     (if \<not> isLoaded st then ([], Inl NotInitialized)
      else
        (let inputFileName = ''input.mp4'';
             outputFileName = ''output.'' @ format_text (format settings);
             command = buildFFmpegCommand toString inputFileName outputFileName clip settings;
             mimeType = (if format settings = mp4 then ''video/mp4'' else ''image/gif'')
         in case ffmpeg videoFile command of
              WriteFileFails e \<Rightarrow> ([], Inl (ProcessingFailed e))
            | ExecFails e \<Rightarrow> ([Transcode i command], Inl (ProcessingFailed e))
            | ReadFileFails e \<Rightarrow> ([Transcode i command], Inl (ProcessingFailed e))
            | DeleteFileFails e \<Rightarrow> ([Transcode i command], Inl (ProcessingFailed e))
            | Output outputData \<Rightarrow>
                ([Transcode i command],
                 Inr \<lparr>blob_data = outputData, blob_type = mimeType\<rparr>)))"

section \<open>ExportHandler\<close>

text \<open>
  What the export handler takes from its surroundings: the text of a number, the
  sources on the network, the engine and the browser at the use made of them for the
  clip at a position of the batch, and the time stamp taken for that clip's file name.
\<close>

datatype download_attempt = DomFails message | Saved

record env =
  env_toString :: "real \<Rightarrow> string"
  env_network :: "string \<Rightarrow> load_attempt"
  env_ffmpeg :: "nat \<Rightarrow> nat list \<Rightarrow> string list \<Rightarrow> engine_run"
  env_browser :: "nat \<Rightarrow> download_attempt"
  env_timestamp :: "nat \<Rightarrow> string"

definition initializeFFmpeg ::
  "(string \<Rightarrow> load_attempt) \<Rightarrow> (real \<Rightarrow> ExportProgress) \<Rightarrow> app_state
     \<Rightarrow> app_state \<times> event list \<times> (message + unit)" where
  "initializeFFmpeg network onProgress st =
     (if isFFmpegInitialized st then (st, [], Inr ())
      else
        (case initialize network onProgress st of
           (st', events, Inl e) \<Rightarrow> (st', events, Inl (InitFailed e))
         | (st', events, Inr _) \<Rightarrow> (st'\<lparr>isFFmpegInitialized := True\<rparr>, events, Inr ())))"

definition downloadFile ::
  "download_attempt \<Rightarrow> nat \<Rightarrow> Blob \<Rightarrow> string \<Rightarrow> event list \<times> (message + unit)" where
  "downloadFile attempt i blob fileName =
     (case attempt of
        DomFails e \<Rightarrow> ([], Inl DownloadFailed)
      | Saved \<Rightarrow> ([Download i blob fileName], Inr ()))"

definition generateFileName ::
  "(real \<Rightarrow> string) \<Rightarrow> string \<Rightarrow> ClipSegment \<Rightarrow> ExportSettings \<Rightarrow> nat option \<Rightarrow> string" where
  "generateFileName toString timestamp clip settings index =
     (let duration = of_int (Math_round ((endTime clip - startTime clip) * 100)) / 100;
          baseName =
            (case index of
               None \<Rightarrow>
                 ''clip_'' @ timestamp @ ''_'' @ toString duration @ ''s_''
                   @ toString (quality settings) @ ''q''
             | Some n \<Rightarrow>
                 ''clip'' @ toString (of_nat n) @ ''_'' @ timestamp @ ''_'' @ toString duration
                   @ ''s_'' @ toString (quality settings) @ ''q'')
      in baseName @ ''.'' @ format_text (format settings))"

text \<open>The body of the loop of \<open>exportMultipleClips\<close> for the clip at position \<open>i\<close>.\<close>

definition export_clip ::
  "env \<Rightarrow> app_state \<Rightarrow> MediaFile \<Rightarrow> ExportSettings \<Rightarrow> nat \<Rightarrow> nat \<Rightarrow> ClipSegment
     \<Rightarrow> event list \<times> (message + unit)" where
  "export_clip e st mediaFile settings nclips i clip =
     (let started = Report \<lparr>clipIndex = i + 1, clipTotal = nclips, processingProgress = 0,
                            status = processing,
                            progress_message = TextProcessingClip (i + 1) nclips\<rparr>
      in case processVideoClip (env_toString e) (env_ffmpeg e i) st i (media_file mediaFile)
                clip settings of
           (events, Inl thrown) \<Rightarrow> (started # events, Inl thrown)
         | (events, Inr outputBlob) \<Rightarrow>
             (case downloadFile (env_browser e i) i outputBlob
                     (generateFileName (env_toString e) (env_timestamp e i) clip settings
                        (Some (i + 1))) of
                (events', Inl thrown) \<Rightarrow> (started # events @ events', Inl thrown)
              | (events', Inr _) \<Rightarrow> (started # events @ events', Inr ())))"

text \<open>The loop: the clips from position \<open>i\<close> on, one after the other, until one throws.\<close>

fun export_clips ::
  "env \<Rightarrow> app_state \<Rightarrow> MediaFile \<Rightarrow> ExportSettings \<Rightarrow> nat \<Rightarrow> nat \<Rightarrow> ClipSegment list
     \<Rightarrow> event list \<times> (message + unit)" where
  "export_clips e st mediaFile settings nclips i [] = ([], Inr ())"
| "export_clips e st mediaFile settings nclips i (clip # rest) =
     (case export_clip e st mediaFile settings nclips i clip of
        (events, Inl thrown) \<Rightarrow> (events, Inl thrown)
      | (events, Inr _) \<Rightarrow>
          (case export_clips e st mediaFile settings nclips (Suc i) rest of
             (events', outcome) \<Rightarrow> (events @ events', outcome)))"

text \<open>
  The first block of \<open>exportMultipleClips\<close>: the engine is initialised unless the
  handler has done so before.
\<close>

definition ensure_initialized ::
  "env \<Rightarrow> app_state \<Rightarrow> nat \<Rightarrow> app_state \<times> event list \<times> (message + unit)" where
  "ensure_initialized e st nclips =
     (if \<not> isFFmpegInitialized st
      then
        (case initializeFFmpeg (env_network e)
                (\<lambda>ratio. \<lparr>clipIndex = 0, clipTotal = nclips,
                            processingProgress = ratio * 100, status = preparing,
                            progress_message = TextLoading (Math_round (ratio * 100))\<rparr>)
                st of
           (st', events, ready) \<Rightarrow>
             (st',
              Report \<lparr>clipIndex = 0, clipTotal = nclips, processingProgress = 0,
                      status = preparing, progress_message = TextInitializing\<rparr> # events,
              ready))
      else (st, [], Inr ()))"

definition exportMultipleClips ::
  "env \<Rightarrow> app_state \<Rightarrow> ClipSegment list \<Rightarrow> MediaFile \<Rightarrow> ExportSettings
     \<Rightarrow> app_state \<times> event list \<times> (message + unit)" where
  "exportMultipleClips e st clips mediaFile settings =
     (case ensure_initialized e st (length clips) of
        (st1, events0, ready) \<Rightarrow>
          (case (case ready of
                   Inl thrown \<Rightarrow> (events0, Inl thrown)
                 | Inr _ \<Rightarrow>
                     (case export_clips e st1 mediaFile settings (length clips) 0 clips of
                        (events, Inl thrown) \<Rightarrow> (events0 @ events, Inl thrown)
                      | (events, Inr _) \<Rightarrow>
                          (events0 @ events
                             @ [Report \<lparr>clipIndex = length clips, clipTotal = length clips,
                                         processingProgress = 100, status = completed,
                                         progress_message = TextBatchDone (length clips)\<rparr>],
                           Inr ()))) of
             (events1, Inl thrown) \<Rightarrow>
               (st1,
                events1 @ [Report \<lparr>clipIndex = 0, clipTotal = length clips,
                                    processingProgress = 0, status = error,
                                    progress_message = TextBatchFailed thrown\<rparr>],
                Inl thrown)
           | (events1, Inr _) \<Rightarrow> (st1, events1, Inr ())))"

text \<open>What a list of events did with the engine and with the browser, by position of the clip.\<close>

datatype action = Transcoded nat | Delivered nat

fun actions :: "event list \<Rightarrow> action list" where
  "actions [] = []"
| "actions (Transcode i command # events) = Transcoded i # actions events"
| "actions (Download i blob fileName # events) = Delivered i # actions events"
| "actions (ev # events) = actions events"

text \<open>The warnings in a list of events, and the error with which an attempt failed.\<close>

fun warnings :: "event list \<Rightarrow> (string \<times> message) list" where
  "warnings [] = []"
| "warnings (Warn baseURL e # events) = (baseURL, e) # warnings events"
| "warnings (ev # events) = warnings events"

fun attempt_error :: "load_attempt \<Rightarrow> message option" where
  "attempt_error (CoreFetchFails e) = Some e"
| "attempt_error (WasmFetchFails e) = Some e"
| "attempt_error (LoadFails e) = Some e"
| "attempt_error Loaded = None"

section \<open>Rounding and the quality mapping\<close>

lemma Math_round_mono: "a \<le> b \<Longrightarrow> Math_round a \<le> Math_round b"
  by (simp add: Math_round_def floor_mono)

lemma Math_round_clamp:
  "Math_round (max 18 (min 28 v)) = max 18 (min 28 (Math_round v))"
  unfolding Math_round_def max_def min_def by (auto; linarith)

lemma Math_round_between:
  "18 \<le> v \<Longrightarrow> v \<le> 28 \<Longrightarrow> 18 \<le> Math_round v \<and> Math_round v \<le> 28"
  unfolding Math_round_def by linarith

lemma Math_round_nearest: "\<bar>real_of_int (Math_round v) - v\<bar> \<le> 1 / 2"
  unfolding Math_round_def by linarith

lemma qualityToCRF_antimono: "q1 \<le> q2 \<Longrightarrow> qualityToCRF q2 \<le> qualityToCRF q1"
  unfolding qualityToCRF_def Let_def
  by (intro Math_round_mono max.mono min.mono) (auto simp: field_simps)

lemma qualityToCRF_values:
  "qualityToCRF 100 = 18" "qualityToCRF 70 = 23" "qualityToCRF 40 = 28"
  by (simp_all add: qualityToCRF_def Math_round_def)

text \<open>
  C1. For every quality from 40 to 100 the parameter computed by \<open>qualityToCRF\<close> is
  the linear formula \<open>28 - ((quality - 40) / 60) * (28 - 18)\<close>, rounded and clamped to
  the interval from 18 to 28, as the specification words it. Quality 100 gives 18, quality
  70 gives 23 and quality 40 gives 28, and a higher quality of the domain never gives a
  higher parameter.
\<close>

theorem qualityToCRF_on_domain:
  assumes "40 \<le> q" and "q \<le> 100" and "40 \<le> q1" and "q1 \<le> q2" and "q2 \<le> 100"
  shows "qualityToCRF q = spec_quality_param q
       \<and> qualityToCRF 100 = 18 \<and> qualityToCRF 70 = 23 \<and> qualityToCRF 40 = 28
       \<and> qualityToCRF q2 \<le> qualityToCRF q1"
proof -
  have "qualityToCRF q = spec_quality_param q"
    unfolding qualityToCRF_def spec_quality_param_def Let_def
    by (simp add: Math_round_clamp)
  moreover have "qualityToCRF q2 \<le> qualityToCRF q1"
    using assms(4) by (rule qualityToCRF_antimono)
  ultimately show ?thesis
    by (simp add: qualityToCRF_values)
qed

theorem qualityToCRF_on_domain_witness:
  "(40::real) \<le> 55 \<and> (55::real) \<le> 100 \<and> (40::real) \<le> 50 \<and> (50::real) \<le> 90 \<and> (90::real) \<le> 100
   \<and> qualityToCRF 55 = spec_quality_param 55 \<and> spec_quality_param 55 = 26
   \<and> qualityToCRF 90 \<le> qualityToCRF 50"
  using qualityToCRF_on_domain [of 55 50 90]
  by (simp add: spec_quality_param_def Math_round_def)

lemma qualityToCRF_range: "18 \<le> qualityToCRF q \<and> qualityToCRF q \<le> 28"
  unfolding qualityToCRF_def Let_def by (rule Math_round_between) simp_all

lemma qualityToCRF_number_Fin:
  "qualityToCRF_number (Fin v) = Fin (of_int (qualityToCRF v))"
  by (simp add: qualityToCRF_number_def qualityToCRF_def)

text \<open>
  C10, as the code has it. For every quality that is a number other than NaN, inside the
  documented domain or not, finite or infinite, \<open>qualityToCRF\<close> returns an integer
  from 18 to 28; on a finite quality it is the value clamped and then rounded. The
  function has no branch that fails.
\<close>

theorem qualityToCRF_number_total:
  assumes "q \<noteq> NaN"
  shows "(\<exists>n. qualityToCRF_number q = Fin (of_int n) \<and> 18 \<le> n \<and> n \<le> 28)
       \<and> (\<forall>v. q = Fin v \<longrightarrow>
             qualityToCRF_number q
               = Fin (of_int (Math_round (max 18 (min 28 (28 - ((v - 40) / 60) * (28 - 18)))))))"
proof (cases q)
  case NaN
  with assms show ?thesis by simp
next
  case NegInfinity
  then have "qualityToCRF_number q = Fin (of_int 28)"
    by (simp add: qualityToCRF_number_def signed_infinity_def Math_round_def)
  with NegInfinity show ?thesis by force
next
  case (Fin v)
  then have "qualityToCRF_number q = Fin (of_int (qualityToCRF v))"
    by (simp add: qualityToCRF_number_Fin)
  moreover have "qualityToCRF v = Math_round (max 18 (min 28 (28 - ((v - 40) / 60) * (28 - 18))))"
    by (simp add: qualityToCRF_def)
  ultimately show ?thesis
    using qualityToCRF_range [of v] Fin by auto
next
  case Infinity
  then have "qualityToCRF_number q = Fin (of_int 18)"
    by (simp add: qualityToCRF_number_def signed_infinity_def Math_round_def)
  with Infinity show ?thesis by force
qed

theorem qualityToCRF_number_total_witness:
  "Fin 1000 \<noteq> NaN \<and> qualityToCRF_number (Fin 1000) = Fin 18
   \<and> Fin 0 \<noteq> NaN \<and> qualityToCRF_number (Fin 0) = Fin 28
   \<and> Infinity \<noteq> NaN \<and> qualityToCRF_number Infinity = Fin 18
   \<and> NegInfinity \<noteq> NaN \<and> qualityToCRF_number NegInfinity = Fin 28"
  using qualityToCRF_number_total [of "Fin 1000"] qualityToCRF_number_total [of "Fin 0"]
    qualityToCRF_number_total [of Infinity] qualityToCRF_number_total [of NegInfinity]
  by (simp add: qualityToCRF_number_def signed_infinity_def Math_round_def)

text \<open>
  For the quality NaN every step gives NaN, and NaN is returned: it is not an integer from
  18 to 28.
\<close>

theorem qualityToCRF_number_total_counterexample:
  "qualityToCRF_number NaN = NaN"
  by (simp add: qualityToCRF_number_def)

section \<open>The command list\<close>

text \<open>
  C6. For every clip and all settings the command begins with the input file and the
  trim: \<open>-ss\<close> with the start time of the clip and \<open>-t\<close> with the end time minus
  the start time. The filter that follows \<open>-vf\<close> begins with the crop filter, and the
  four arguments of the crop filter are the width, height, x and y of the crop of the
  clip, each rounded by \<open>Math.round\<close>, which is an integer at most one half away from
  its argument.
\<close>

theorem buildFFmpegCommand_trim_and_crop:
  "take 6 (buildFFmpegCommand toString inputFile outputFile clip settings)
     = [''-i'', inputFile, ''-ss'', toString (startTime clip),
        ''-t'', toString (endTime clip - startTime clip)]
   \<and> buildFFmpegCommand toString inputFile outputFile clip settings ! 6 = ''-vf''
   \<and> prefix (cropFilter toString clip)
        (buildFFmpegCommand toString inputFile outputFile clip settings ! 7)
   \<and> cropFilter toString clip =
        ''crop='' @ toString (of_int (Math_round (crop_width (cropArea clip)))) @ '':''
          @ toString (of_int (Math_round (crop_height (cropArea clip)))) @ '':''
          @ toString (of_int (Math_round (crop_x (cropArea clip)))) @ '':''
          @ toString (of_int (Math_round (crop_y (cropArea clip))))
   \<and> \<bar>real_of_int (Math_round v) - v\<bar> \<le> 1 / 2"
proof -
  have "prefix (cropFilter toString clip) (paletteFilter toString clip settings)"
    by (simp add: paletteFilter_def)
  then show ?thesis
    using Math_round_nearest [of v]
    by (cases "format settings") (simp_all add: buildFFmpegCommand_def cropFilter_def)
qed

text \<open>
  C7. For the format \<open>gif\<close> the command holds the two stages of the palette pipeline.
  The first filter crops, converts the frame rate, scales to the width 320 with the height
  following the aspect ratio (\<open>-1\<close>) and the lanczos filter, and generates the palette,
  which is written to \<open>palette.png\<close>. The second filter is the same chain followed by
  the use of the palette, which is read as second input, and the animation loops for ever
  (\<open>-loop 0\<close>). The frame rate is 15 when the settings give none.
\<close>

theorem buildFFmpegCommand_gif_pipeline:
  assumes "format settings = gif"
  shows "buildFFmpegCommand toString inputFile outputFile clip settings =
           [''-i'', inputFile,
            ''-ss'', toString (startTime clip),
            ''-t'', toString (endTime clip - startTime clip),
            ''-vf'', cropFilter toString clip @ '',fps='' @ toString (fps_or_default settings)
                      @ '',scale=320:-1:flags=lanczos'' @ '',palettegen'',
            ''-y'', ''palette.png'',
            ''-i'', ''palette.png'',
            ''-filter_complex'',
              cropFilter toString clip @ '',fps='' @ toString (fps_or_default settings)
                @ '',scale=320:-1:flags=lanczos'' @ ''[x];[x][1:v]paletteuse'',
            ''-loop'', ''0'',
            outputFile]
       \<and> (fps settings = None \<longrightarrow> fps_or_default settings = 15)
       \<and> (\<forall>f. fps settings = Some f \<and> f \<noteq> 0 \<longrightarrow> fps_or_default settings = f)"
  using assms
  by (simp add: buildFFmpegCommand_def paletteFilter_def gifFilter_def fps_or_default_def)

theorem buildFFmpegCommand_gif_pipeline_witness:
  "format \<lparr>format = gif, quality = 70, fps = None, preset = Some medium\<rparr> = gif
   \<and> buildFFmpegCommand (\<lambda>v. if v = 15 then ''15'' else ''n'') ''input.mp4'' ''output.gif''
        \<lparr>clip_id = ''c1'', mediaId = ''m1'', startTime = 2, endTime = 5,
         cropArea = \<lparr>crop_x = 10, crop_y = 20, crop_width = 640, crop_height = 360\<rparr>,
         thumbnail = ''t'', createdAt = 0\<rparr>
        \<lparr>format = gif, quality = 70, fps = None, preset = Some medium\<rparr>
      = [''-i'', ''input.mp4'', ''-ss'', ''n'', ''-t'', ''n'',
         ''-vf'', ''crop=n:n:n:n,fps=15,scale=320:-1:flags=lanczos,palettegen'',
         ''-y'', ''palette.png'', ''-i'', ''palette.png'',
         ''-filter_complex'',
         ''crop=n:n:n:n,fps=15,scale=320:-1:flags=lanczos[x];[x][1:v]paletteuse'',
         ''-loop'', ''0'', ''output.gif'']"
  using buildFFmpegCommand_gif_pipeline
    [of "\<lparr>format = gif, quality = 70, fps = None, preset = Some medium\<rparr>"
        "\<lambda>v. if v = 15 then ''15'' else ''n''" "''input.mp4''" "''output.gif''"
        "\<lparr>clip_id = ''c1'', mediaId = ''m1'', startTime = 2, endTime = 5,
         cropArea = \<lparr>crop_x = 10, crop_y = 20, crop_width = 640, crop_height = 360\<rparr>,
         thumbnail = ''t'', createdAt = 0\<rparr>"]
  by (simp add: cropFilter_def Math_round_def)

section \<open>Clip creation\<close>

text \<open>
  C8. A time range whose duration, end minus start, is below 0.1 seconds is rejected:
  \<open>createClipSegment\<close> gives no clip.
\<close>

theorem createClipSegment_rejects_short:
  assumes "range_end timeRange - range_start timeRange < 1 / 10"
  shows "createClipSegment env timeRange selection media container = None"
  using assms by (simp add: createClipSegment_def canAddToClips_def getSelectedDuration_def)

theorem createClipSegment_rejects_short_witness:
  "range_end \<lparr>range_start = 3, range_end = 61 / 20\<rparr>
     - range_start \<lparr>range_start = 3, range_end = 61 / 20\<rparr> < 1 / 10
   \<and> createClipSegment
        \<lparr>generateCroppedThumbnail = (\<lambda>u t c w h. Inr ''thumb''),
         generateVideoThumbnail = (\<lambda>u t w h. Inr ''thumb''),
         fresh_id = ''id1'', clock = 0\<rparr>
        \<lparr>range_start = 3, range_end = 61 / 20\<rparr> None
        \<lparr>media_id = ''m1'', media_kind = Video, media_file = [], url = ''blob:video'',
         dimensions = \<lparr>dim_width = 1920, dim_height = 1080\<rparr>\<rparr>
        None = None"
  using createClipSegment_rejects_short
    [of "\<lparr>range_start = 3, range_end = 61 / 20\<rparr>"
        "\<lparr>generateCroppedThumbnail = (\<lambda>u t c w h. Inr ''thumb''),
         generateVideoThumbnail = (\<lambda>u t w h. Inr ''thumb''),
         fresh_id = ''id1'', clock = 0\<rparr>"
        None
        "\<lparr>media_id = ''m1'', media_kind = Video, media_file = [], url = ''blob:video'',
         dimensions = \<lparr>dim_width = 1920, dim_height = 1080\<rparr>\<rparr>"
        None]
  by simp

text \<open>
  C9. When the generation of the thumbnail fails, the failure is caught in
  \<open>createClipSegment\<close>: the clip is produced all the same, and its thumbnail is the
  URL of the media, the value the thumbnail had before the attempt.
\<close>

theorem createClipSegment_thumbnail_failure:
  assumes "canAddToClips timeRange"
    and "generate_thumbnail env timeRange selection media
           (finalCropArea media selection container) = Inl failure"
  shows "createClipSegment env timeRange selection media container =
           Some \<lparr>clip_id = fresh_id env, mediaId = media_id media,
                 startTime = range_start timeRange, endTime = range_end timeRange,
                 cropArea = finalCropArea media selection container,
                 thumbnail = url media, createdAt = clock env\<rparr>"
  using assms by (simp add: createClipSegment_def)

theorem createClipSegment_thumbnail_failure_witness:
  "canAddToClips \<lparr>range_start = 0, range_end = 10\<rparr>
   \<and> generate_thumbnail
        \<lparr>generateCroppedThumbnail = (\<lambda>u t c w h. Inl (External ''canvas'')),
         generateVideoThumbnail = (\<lambda>u t w h. Inl (External ''load'')),
         fresh_id = ''id1'', clock = 7\<rparr>
        \<lparr>range_start = 0, range_end = 10\<rparr> None
        \<lparr>media_id = ''m1'', media_kind = Video, media_file = [], url = ''blob:video'',
         dimensions = \<lparr>dim_width = 1920, dim_height = 1080\<rparr>\<rparr>
        \<lparr>crop_x = 0, crop_y = 0, crop_width = 1920, crop_height = 1080\<rparr>
      = Inl (External ''load'')
   \<and> createClipSegment
        \<lparr>generateCroppedThumbnail = (\<lambda>u t c w h. Inl (External ''canvas'')),
         generateVideoThumbnail = (\<lambda>u t w h. Inl (External ''load'')),
         fresh_id = ''id1'', clock = 7\<rparr>
        \<lparr>range_start = 0, range_end = 10\<rparr> None
        \<lparr>media_id = ''m1'', media_kind = Video, media_file = [], url = ''blob:video'',
         dimensions = \<lparr>dim_width = 1920, dim_height = 1080\<rparr>\<rparr>
        None
      = Some \<lparr>clip_id = ''id1'', mediaId = ''m1'', startTime = 0, endTime = 10,
               cropArea = \<lparr>crop_x = 0, crop_y = 0, crop_width = 1920, crop_height = 1080\<rparr>,
               thumbnail = ''blob:video'', createdAt = 7\<rparr>"
  using createClipSegment_thumbnail_failure
    [of "\<lparr>range_start = 0, range_end = 10\<rparr>"
        "\<lparr>generateCroppedThumbnail = (\<lambda>u t c w h. Inl (External ''canvas'')),
         generateVideoThumbnail = (\<lambda>u t w h. Inl (External ''load'')),
         fresh_id = ''id1'', clock = 7\<rparr>"
        None
        "\<lparr>media_id = ''m1'', media_kind = Video, media_file = [], url = ''blob:video'',
         dimensions = \<lparr>dim_width = 1920, dim_height = 1080\<rparr>\<rparr>"
        None "External ''load''"]
  by (simp add: canAddToClips_def getSelectedDuration_def generate_thumbnail_def
        finalCropArea_def)

section \<open>The crop of a new clip\<close>

lemma finalCropArea_selected:
  "finalCropArea media (Some selected) (Some r) =
     \<lparr>crop_x = max 0 ((crop_x selected - offsetX (display_placement media r))
                      * (dim_width (dimensions media) / displayWidth (display_placement media r))),
      crop_y = max 0 ((crop_y selected - offsetY (display_placement media r))
                      * (dim_height (dimensions media) / displayHeight (display_placement media r))),
      crop_width =
        (if max 0 ((crop_x selected - offsetX (display_placement media r))
                    * (dim_width (dimensions media) / displayWidth (display_placement media r)))
              + min (crop_width selected
                       * (dim_width (dimensions media) / displayWidth (display_placement media r)))
                    (dim_width (dimensions media))
              > dim_width (dimensions media)
         then dim_width (dimensions media)
                - max 0 ((crop_x selected - offsetX (display_placement media r))
                          * (dim_width (dimensions media) / displayWidth (display_placement media r)))
         else min (crop_width selected
                     * (dim_width (dimensions media) / displayWidth (display_placement media r)))
                  (dim_width (dimensions media))),
      crop_height =
        (if max 0 ((crop_y selected - offsetY (display_placement media r))
                    * (dim_height (dimensions media) / displayHeight (display_placement media r)))
              + min (crop_height selected
                       * (dim_height (dimensions media) / displayHeight (display_placement media r)))
                    (dim_height (dimensions media))
              > dim_height (dimensions media)
         then dim_height (dimensions media)
                - max 0 ((crop_y selected - offsetY (display_placement media r))
                          * (dim_height (dimensions media) / displayHeight (display_placement media r)))
         else min (crop_height selected
                     * (dim_height (dimensions media) / displayHeight (display_placement media r)))
                  (dim_height (dimensions media)))\<rparr>"
  unfolding finalCropArea_def Let_def prod.case option.case ..

lemma finalCropArea_whole_frame:
  "selection = None \<or> container = None \<Longrightarrow>
   finalCropArea media selection container =
     \<lparr>crop_x = 0, crop_y = 0, crop_width = dim_width (dimensions media),
      crop_height = dim_height (dimensions media)\<rparr>"
  unfolding finalCropArea_def by (cases selection; cases container; simp)

lemma cut_fields_contained:
  fixes vx vy :: real
  assumes "c = \<lparr>crop_x = vx, crop_y = vy,
                 crop_width = (if vx + w > dw then dw - vx else w),
                 crop_height = (if vy + h > dh then dh - vy else h)\<rparr>"
    and "0 \<le> vx" and "0 \<le> vy"
  shows "0 \<le> crop_x c \<and> 0 \<le> crop_y c \<and> crop_x c + crop_width c \<le> dw
         \<and> crop_y c + crop_height c \<le> dh"
  using assms by simp

lemma finalCropArea_contained:
  "0 \<le> crop_x (finalCropArea media selection container)
   \<and> 0 \<le> crop_y (finalCropArea media selection container)
   \<and> crop_x (finalCropArea media selection container)
       + crop_width (finalCropArea media selection container) \<le> dim_width (dimensions media)
   \<and> crop_y (finalCropArea media selection container)
       + crop_height (finalCropArea media selection container) \<le> dim_height (dimensions media)"
proof (cases "selection = None \<or> container = None")
  case True
  then show ?thesis by (simp add: finalCropArea_whole_frame)
next
  case False
  then obtain selected r where some: "selection = Some selected" "container = Some r"
    by auto
  show ?thesis
    unfolding some
    by (rule cut_fields_contained [OF finalCropArea_selected]) (rule max.cobounded1)+
qed

lemma createClipSegment_cropArea:
  "createClipSegment env timeRange selection media container = Some clip
   \<Longrightarrow> cropArea clip = finalCropArea media selection container"
  by (auto simp: createClipSegment_def Let_def split: if_splits)

text \<open>
  C5. For a media source and a container of positive width and height, and for every
  selection, the crop of the clip that \<open>createClipSegment\<close> produces satisfies
  \<open>0 \<le> x\<close>, \<open>0 \<le> y\<close>, \<open>x + width \<le> sourceWidth\<close> and
  \<open>y + height \<le> sourceHeight\<close>.
\<close>

theorem createClipSegment_crop_contained:
  assumes "0 < dim_width (dimensions media)" and "0 < dim_height (dimensions media)"
    and "\<forall>r. container = Some r \<longrightarrow> 0 < rect_width r \<and> 0 < rect_height r"
    and "createClipSegment env timeRange selection media container = Some clip"
  shows "0 \<le> crop_x (cropArea clip) \<and> 0 \<le> crop_y (cropArea clip)
       \<and> crop_x (cropArea clip) + crop_width (cropArea clip) \<le> dim_width (dimensions media)
       \<and> crop_y (cropArea clip) + crop_height (cropArea clip) \<le> dim_height (dimensions media)"
proof -
  from assms(4) have "cropArea clip = finalCropArea media selection container"
    by (rule createClipSegment_cropArea)
  then show ?thesis
    by (simp only: finalCropArea_contained)
qed

text \<open>
  The scenario of the specification: the selection of the whole displayed video, 800 by
  450 below a gap of 175, is the whole frame of the video.
\<close>

theorem createClipSegment_crop_contained_witness:
  "createClipSegment
        \<lparr>generateCroppedThumbnail = (\<lambda>u t c w h. Inr ''thumb''),
         generateVideoThumbnail = (\<lambda>u t w h. Inr ''thumb''),
         fresh_id = ''id1'', clock = 0\<rparr>
        \<lparr>range_start = 0, range_end = 10\<rparr>
        (Some \<lparr>crop_x = 0, crop_y = 175, crop_width = 800, crop_height = 450\<rparr>)
        \<lparr>media_id = ''m1'', media_kind = Video, media_file = [], url = ''blob:video'',
         dimensions = \<lparr>dim_width = 1920, dim_height = 1080\<rparr>\<rparr>
        (Some \<lparr>rect_width = 800, rect_height = 800\<rparr>)
      = Some \<lparr>clip_id = ''id1'', mediaId = ''m1'', startTime = 0, endTime = 10,
          cropArea = \<lparr>crop_x = 0, crop_y = 0, crop_width = 1920, crop_height = 1080\<rparr>,
          thumbnail = ''thumb'', createdAt = 0\<rparr>
   \<and> (0::real) \<le> 0 \<and> (0::real) + 1920 \<le> 1920 \<and> (0::real) + 1080 \<le> 1080"
  using createClipSegment_crop_contained
    [of "\<lparr>media_id = ''m1'', media_kind = Video, media_file = [], url = ''blob:video'',
         dimensions = \<lparr>dim_width = 1920, dim_height = 1080\<rparr>\<rparr>"
        "Some \<lparr>rect_width = 800, rect_height = 800\<rparr>"
        "\<lparr>generateCroppedThumbnail = (\<lambda>u t c w h. Inr ''thumb''),
         generateVideoThumbnail = (\<lambda>u t w h. Inr ''thumb''),
         fresh_id = ''id1'', clock = 0\<rparr>"
        "\<lparr>range_start = 0, range_end = 10\<rparr>"
        "Some \<lparr>crop_x = 0, crop_y = 175, crop_width = 800, crop_height = 450\<rparr>"
        "\<lparr>clip_id = ''id1'', mediaId = ''m1'', startTime = 0, endTime = 10,
          cropArea = \<lparr>crop_x = 0, crop_y = 0, crop_width = 1920, crop_height = 1080\<rparr>,
          thumbnail = ''thumb'', createdAt = 0\<rparr>"]
  by (simp add: createClipSegment_def canAddToClips_def getSelectedDuration_def
        generate_thumbnail_def finalCropArea_def display_placement_def Let_def)

text \<open>The placement fills one axis of the container and centres the video on the other.\<close>

lemma display_placement_facts:
  assumes "0 < dim_width (dimensions media)" and "0 < dim_height (dimensions media)"
    and "0 < rect_width r" and "0 < rect_height r"
  shows "0 < displayWidth (display_placement media r)"
    and "0 < displayHeight (display_placement media r)"
    and "offsetX (display_placement media r) = 0 \<or> offsetY (display_placement media r) = 0"
    and "2 * offsetX (display_placement media r) + displayWidth (display_placement media r)
           = rect_width r"
    and "2 * offsetY (display_placement media r) + displayHeight (display_placement media r)
           = rect_height r"
  using assms by (simp_all add: display_placement_def Let_def field_simps)

lemma axis_before:
  fixes s :: real
  assumes "0 < s" and "0 < len" and "pos + len \<le> off" and "0 < d"
  shows "max 0 ((pos - off) * s) = 0"
    and "(if max 0 ((pos - off) * s) + min (len * s) d > d
          then d - max 0 ((pos - off) * s) else min (len * s) d) = min (len * s) d"
    and "0 < min (len * s) d"
proof -
  have "(pos - off) * s \<le> 0"
    using assms by (simp add: mult_le_0_iff)
  then show v: "max 0 ((pos - off) * s) = 0" by simp
  show "(if max 0 ((pos - off) * s) + min (len * s) d > d
         then d - max 0 ((pos - off) * s) else min (len * s) d) = min (len * s) d"
    unfolding v by simp
  show "0 < min (len * s) d"
    using assms by simp
qed

lemma axis_across:
  fixes s :: real
  assumes "0 < s" and "0 < len" and "0 \<le> pos" and "pos + len \<le> c" and "c * s = d"
  shows "0 < (if max 0 ((pos - 0) * s) + min (len * s) d > d
              then d - max 0 ((pos - 0) * s) else min (len * s) d)"
proof -
  have "(pos + len) * s \<le> c * s"
    using assms(4) by (rule mult_right_mono) (use assms(1) in simp)
  then have le: "pos * s + len * s \<le> d"
    unfolding assms(5) by (simp add: distrib_right)
  have nonneg: "0 \<le> pos * s" and pos: "0 < len * s"
    using assms by simp_all
  from le nonneg have "len * s \<le> d" by linarith
  then have m: "min (len * s) d = len * s" by simp
  from nonneg have v: "max 0 ((pos - 0) * s) = pos * s" by simp
  show ?thesis
    unfolding m v using le pos by simp
qed

text \<open>
  C3, as the code has it. A selection that lies in the gap beside the displayed video is
  not mapped to a rectangle of area zero. Take a selection of positive width and height
  inside the container that lies in the gap before the displayed video: above it, or left
  of it. The origin of its crop on that axis is 0, and the crop has positive width and
  height.
\<close>

theorem createClipSegment_gap_selection:
  assumes dims: "0 < dim_width (dimensions media)" "0 < dim_height (dimensions media)"
      "0 < rect_width r" "0 < rect_height r"
    and size: "0 < crop_width selected" "0 < crop_height selected"
    and inside: "0 \<le> crop_x selected" "crop_x selected + crop_width selected \<le> rect_width r"
      "0 \<le> crop_y selected" "crop_y selected + crop_height selected \<le> rect_height r"
    and clip: "createClipSegment env timeRange (Some selected) media (Some r) = Some clip"
  shows "(crop_y selected + crop_height selected \<le> offsetY (display_placement media r) \<longrightarrow>
            crop_y (cropArea clip) = 0
            \<and> 0 < crop_width (cropArea clip) \<and> 0 < crop_height (cropArea clip))
       \<and> (crop_x selected + crop_width selected \<le> offsetX (display_placement media r) \<longrightarrow>
            crop_x (cropArea clip) = 0
            \<and> 0 < crop_width (cropArea clip) \<and> 0 < crop_height (cropArea clip))"
proof -
  let ?p = "display_placement media r"
  let ?W = "dim_width (dimensions media)"
  let ?H = "dim_height (dimensions media)"
  let ?sx = "?W / displayWidth ?p"
  let ?sy = "?H / displayHeight ?p"
  note pf = display_placement_facts [OF dims]
  have sx: "0 < ?sx" "displayWidth ?p * ?sx = ?W"
    using pf(1) dims(1) by simp_all
  have sy: "0 < ?sy" "displayHeight ?p * ?sy = ?H"
    using pf(2) dims(2) by simp_all
  have c: "cropArea clip = finalCropArea media (Some selected) (Some r)"
    using clip by (rule createClipSegment_cropArea)
  have above: "crop_y (cropArea clip) = 0
      \<and> 0 < crop_width (cropArea clip) \<and> 0 < crop_height (cropArea clip)"
    if h: "crop_y selected + crop_height selected \<le> offsetY ?p"
  proof -
    from h size(2) inside(3) have "0 < offsetY ?p" by linarith
    with pf(3) have ox: "offsetX ?p = 0" by simp
    with pf(4) have "displayWidth ?p = rect_width r" by simp
    with sx(2) have full: "rect_width r * ?sx = ?W" by simp
    note y = axis_before [OF sy(1) size(2) h dims(2)]
    note x = axis_across [OF sx(1) size(1) inside(1) inside(2) full]
    show ?thesis
      unfolding c finalCropArea_selected ox
      using y x by (simp only: crop_rect.simps simp_thms)
  qed
  have left: "crop_x (cropArea clip) = 0
      \<and> 0 < crop_width (cropArea clip) \<and> 0 < crop_height (cropArea clip)"
    if h: "crop_x selected + crop_width selected \<le> offsetX ?p"
  proof -
    from h size(1) inside(1) have "0 < offsetX ?p" by linarith
    with pf(3) have oy: "offsetY ?p = 0" by simp
    with pf(5) have "displayHeight ?p = rect_height r" by simp
    with sy(2) have full: "rect_height r * ?sy = ?H" by simp
    note x = axis_before [OF sx(1) size(1) h dims(1)]
    note y = axis_across [OF sy(1) size(2) inside(3) inside(4) full]
    show ?thesis
      unfolding c finalCropArea_selected oy
      using y x by (simp only: crop_rect.simps simp_thms)
  qed
  from above left show ?thesis
    by blast
qed

theorem createClipSegment_gap_selection_witness:
  "crop_y \<lparr>crop_x = 0, crop_y = 0, crop_width = 800, crop_height = 100\<rparr> + crop_height \<lparr>crop_x = 0, crop_y = 0, crop_width = 800, crop_height = 100\<rparr>
     \<le> offsetY (display_placement
         \<lparr>media_id = ''m1'', media_kind = Video, media_file = [], url = ''blob:video'',
         dimensions = \<lparr>dim_width = 1920, dim_height = 1080\<rparr>\<rparr>
         \<lparr>rect_width = 800, rect_height = 800\<rparr>)
   \<and> createClipSegment
        \<lparr>generateCroppedThumbnail = (\<lambda>u t c w h. Inr ''thumb''),
         generateVideoThumbnail = (\<lambda>u t w h. Inr ''thumb''),
         fresh_id = ''id1'', clock = 0\<rparr>
        \<lparr>range_start = 0, range_end = 10\<rparr>
        (Some \<lparr>crop_x = 0, crop_y = 0, crop_width = 800, crop_height = 100\<rparr>)
        \<lparr>media_id = ''m1'', media_kind = Video, media_file = [], url = ''blob:video'',
         dimensions = \<lparr>dim_width = 1920, dim_height = 1080\<rparr>\<rparr>
        (Some \<lparr>rect_width = 800, rect_height = 800\<rparr>)
      = Some \<lparr>clip_id = ''id1'', mediaId = ''m1'', startTime = 0, endTime = 10,
          cropArea = \<lparr>crop_x = 0, crop_y = 0, crop_width = 1920, crop_height = 240\<rparr>,
          thumbnail = ''thumb'', createdAt = 0\<rparr>
   \<and> crop_x \<lparr>crop_x = 0, crop_y = 0, crop_width = 100, crop_height = 800\<rparr> + crop_width \<lparr>crop_x = 0, crop_y = 0, crop_width = 100, crop_height = 800\<rparr>
     \<le> offsetX (display_placement
         \<lparr>media_id = ''m1'', media_kind = Video, media_file = [], url = ''blob:video'',
         dimensions = \<lparr>dim_width = 1080, dim_height = 1920\<rparr>\<rparr>
         \<lparr>rect_width = 800, rect_height = 800\<rparr>)
   \<and> createClipSegment
        \<lparr>generateCroppedThumbnail = (\<lambda>u t c w h. Inr ''thumb''),
         generateVideoThumbnail = (\<lambda>u t w h. Inr ''thumb''),
         fresh_id = ''id1'', clock = 0\<rparr>
        \<lparr>range_start = 0, range_end = 10\<rparr>
        (Some \<lparr>crop_x = 0, crop_y = 0, crop_width = 100, crop_height = 800\<rparr>)
        \<lparr>media_id = ''m1'', media_kind = Video, media_file = [], url = ''blob:video'',
         dimensions = \<lparr>dim_width = 1080, dim_height = 1920\<rparr>\<rparr>
        (Some \<lparr>rect_width = 800, rect_height = 800\<rparr>)
      = Some \<lparr>clip_id = ''id1'', mediaId = ''m1'', startTime = 0, endTime = 10,
          cropArea = \<lparr>crop_x = 0, crop_y = 0, crop_width = 240, crop_height = 1920\<rparr>,
          thumbnail = ''thumb'', createdAt = 0\<rparr>"
  using createClipSegment_gap_selection
    [of "\<lparr>media_id = ''m1'', media_kind = Video, media_file = [], url = ''blob:video'',
         dimensions = \<lparr>dim_width = 1920, dim_height = 1080\<rparr>\<rparr>"
        "\<lparr>rect_width = 800, rect_height = 800\<rparr>"
        "\<lparr>crop_x = 0, crop_y = 0, crop_width = 800, crop_height = 100\<rparr>"
        "\<lparr>generateCroppedThumbnail = (\<lambda>u t c w h. Inr ''thumb''),
         generateVideoThumbnail = (\<lambda>u t w h. Inr ''thumb''),
         fresh_id = ''id1'', clock = 0\<rparr>"
        "\<lparr>range_start = 0, range_end = 10\<rparr>"
        "\<lparr>clip_id = ''id1'', mediaId = ''m1'', startTime = 0, endTime = 10,
          cropArea = \<lparr>crop_x = 0, crop_y = 0, crop_width = 1920, crop_height = 240\<rparr>,
          thumbnail = ''thumb'', createdAt = 0\<rparr>"]
    createClipSegment_gap_selection
    [of "\<lparr>media_id = ''m1'', media_kind = Video, media_file = [], url = ''blob:video'',
         dimensions = \<lparr>dim_width = 1080, dim_height = 1920\<rparr>\<rparr>"
        "\<lparr>rect_width = 800, rect_height = 800\<rparr>"
        "\<lparr>crop_x = 0, crop_y = 0, crop_width = 100, crop_height = 800\<rparr>"
        "\<lparr>generateCroppedThumbnail = (\<lambda>u t c w h. Inr ''thumb''),
         generateVideoThumbnail = (\<lambda>u t w h. Inr ''thumb''),
         fresh_id = ''id1'', clock = 0\<rparr>"
        "\<lparr>range_start = 0, range_end = 10\<rparr>"
        "\<lparr>clip_id = ''id1'', mediaId = ''m1'', startTime = 0, endTime = 10,
          cropArea = \<lparr>crop_x = 0, crop_y = 0, crop_width = 240, crop_height = 1920\<rparr>,
          thumbnail = ''thumb'', createdAt = 0\<rparr>"]
  by (simp_all add: createClipSegment_def canAddToClips_def getSelectedDuration_def
        generate_thumbnail_def finalCropArea_def display_placement_def Let_def)

text \<open>
  A video of 1920 by 1080 in a container of 800 by 800 is displayed 450 high below a gap
  of 175. The selection of the top 100 rows of the container lies in that gap, and its
  crop is the top 240 rows of the video, of area 1920 times 240.
\<close>

theorem createClipSegment_gap_selection_counterexample:
  "crop_y \<lparr>crop_x = 0, crop_y = 0, crop_width = 800, crop_height = 100\<rparr> + crop_height \<lparr>crop_x = 0, crop_y = 0, crop_width = 800, crop_height = 100\<rparr>
     \<le> offsetY (display_placement
         \<lparr>media_id = ''m1'', media_kind = Video, media_file = [], url = ''blob:video'',
         dimensions = \<lparr>dim_width = 1920, dim_height = 1080\<rparr>\<rparr>
         \<lparr>rect_width = 800, rect_height = 800\<rparr>)
   \<and> createClipSegment
        \<lparr>generateCroppedThumbnail = (\<lambda>u t c w h. Inr ''thumb''),
         generateVideoThumbnail = (\<lambda>u t w h. Inr ''thumb''),
         fresh_id = ''id1'', clock = 0\<rparr>
        \<lparr>range_start = 0, range_end = 10\<rparr>
        (Some \<lparr>crop_x = 0, crop_y = 0, crop_width = 800, crop_height = 100\<rparr>)
        \<lparr>media_id = ''m1'', media_kind = Video, media_file = [], url = ''blob:video'',
         dimensions = \<lparr>dim_width = 1920, dim_height = 1080\<rparr>\<rparr>
        (Some \<lparr>rect_width = 800, rect_height = 800\<rparr>)
      = Some \<lparr>clip_id = ''id1'', mediaId = ''m1'', startTime = 0, endTime = 10,
          cropArea = \<lparr>crop_x = 0, crop_y = 0, crop_width = 1920, crop_height = 240\<rparr>,
          thumbnail = ''thumb'', createdAt = 0\<rparr>
   \<and> crop_width \<lparr>crop_x = 0, crop_y = 0, crop_width = 1920, crop_height = 240\<rparr>
       * crop_height \<lparr>crop_x = 0, crop_y = 0, crop_width = 1920, crop_height = 240\<rparr> \<noteq> 0"
  by (simp add: createClipSegment_def canAddToClips_def getSelectedDuration_def
        generate_thumbnail_def finalCropArea_def display_placement_def Let_def)

section \<open>Initialisation when every source fails\<close>

lemma load_from_sources_all_fail:
  assumes "\<forall>baseURL \<in> set sources. network baseURL \<noteq> Loaded"
  shows "\<exists>events. load_from_sources network onProgress sources = (events, False)
       \<and> warnings events
           = map (\<lambda>baseURL. (baseURL, the (attempt_error (network baseURL)))) sources"
  using assms
proof (induction sources)
  case Nil
  then show ?case by simp
next
  case (Cons baseURL rest)
  then obtain events where
    rest: "load_from_sources network onProgress rest = (events, False)"
      "warnings events = map (\<lambda>baseURL. (baseURL, the (attempt_error (network baseURL)))) rest"
    by auto
  from Cons.prems have "network baseURL \<noteq> Loaded" by simp
  then show ?case
    by (cases "network baseURL") (simp_all add: rest)
qed

text \<open>
  C4, as the code has it. When the engine is not loaded and every configured source fails,
  \<open>initialize\<close> raises an error whose message is the fixed text for the failure of all
  sources inside the fixed text of the failed initialisation, and leaves the state as it
  was. The errors of the sources are not in the error raised: each is written to the
  console as a warning, one for each source, in the order of the sources.
\<close>

theorem initialize_all_sources_fail:
  assumes "\<not> isLoaded st"
    and "\<forall>baseURL \<in> set cdnSources. network baseURL \<noteq> Loaded"
  shows "fst (initialize network onProgress st) = st
       \<and> snd (snd (initialize network onProgress st))
           = Inl (InitFailedCheckNetwork AllSourcesFailed)
       \<and> warnings (fst (snd (initialize network onProgress st)))
           = map (\<lambda>baseURL. (baseURL, the (attempt_error (network baseURL)))) cdnSources"
proof -
  from load_from_sources_all_fail [OF assms(2), of onProgress] obtain events where
    all: "load_from_sources network onProgress cdnSources = (events, False)"
      "warnings events
         = map (\<lambda>baseURL. (baseURL, the (attempt_error (network baseURL)))) cdnSources"
    by auto
  have "initialize network onProgress st
      = (st, events, Inl (InitFailedCheckNetwork AllSourcesFailed))"
    using assms(1) by (simp add: initialize_def all(1))
  with all(2) show ?thesis by simp
qed

theorem initialize_all_sources_fail_witness:
  "\<not> isLoaded \<lparr>isLoaded = False, isFFmpegInitialized = False\<rparr>
   \<and> snd (snd (initialize (\<lambda>baseURL. WasmFetchFails (External ''timeout''))
        (\<lambda>ratio. \<lparr>clipIndex = 0, clipTotal = 1, processingProgress = ratio * 100,
                    status = preparing, progress_message = TextInitializing\<rparr>)
        \<lparr>isLoaded = False, isFFmpegInitialized = False\<rparr>))
      = Inl (InitFailedCheckNetwork AllSourcesFailed)
   \<and> warnings (fst (snd (initialize (\<lambda>baseURL. WasmFetchFails (External ''timeout''))
        (\<lambda>ratio. \<lparr>clipIndex = 0, clipTotal = 1, processingProgress = ratio * 100,
                    status = preparing, progress_message = TextInitializing\<rparr>)
        \<lparr>isLoaded = False, isFFmpegInitialized = False\<rparr>)))
      = [(''https://unpkg.com/@ffmpeg/core@0.12.6/dist/esm'', External ''timeout''),
         (''https://cdn.jsdelivr.net/npm/@ffmpeg/core@0.12.6/dist/esm'', External ''timeout''),
         (''https://unpkg.com/@ffmpeg/core-mt@0.12.6/dist/esm'', External ''timeout'')]"
  using initialize_all_sources_fail
    [of "\<lparr>isLoaded = False, isFFmpegInitialized = False\<rparr>"
        "\<lambda>baseURL. WasmFetchFails (External ''timeout'')"
        "\<lambda>ratio. \<lparr>clipIndex = 0, clipTotal = 1, processingProgress = ratio * 100,
                    status = preparing, progress_message = TextInitializing\<rparr>"]
  by (simp add: cdnSources_def)

text \<open>
  Sources that all fail with one error and sources that all fail with another raise the
  same error: the error raised does not carry the errors of the sources.
\<close>

theorem initialize_all_sources_fail_counterexample:
  "snd (snd (initialize (\<lambda>baseURL. CoreFetchFails (External ''dns''))
        (\<lambda>ratio. \<lparr>clipIndex = 0, clipTotal = 1, processingProgress = ratio * 100,
                    status = preparing, progress_message = TextInitializing\<rparr>)
        \<lparr>isLoaded = False, isFFmpegInitialized = False\<rparr>))
     = Inl (InitFailedCheckNetwork AllSourcesFailed)
   \<and> snd (snd (initialize (\<lambda>baseURL. LoadFails (External ''wasm''))
        (\<lambda>ratio. \<lparr>clipIndex = 0, clipTotal = 1, processingProgress = ratio * 100,
                    status = preparing, progress_message = TextInitializing\<rparr>)
        \<lparr>isLoaded = False, isFFmpegInitialized = False\<rparr>))
     = Inl (InitFailedCheckNetwork AllSourcesFailed)
   \<and> External ''dns'' \<noteq> External ''wasm''"
  by (simp add: initialize_def cdnSources_def)

section \<open>Batch export\<close>

lemma actions_append: "actions (xs @ ys) = actions xs @ actions ys"
  by (induction xs rule: actions.induct) simp_all

lemma actions_load_from_sources:
  "actions (fst (load_from_sources network onProgress sources)) = []"
proof (induction sources)
  case Nil
  then show ?case by simp
next
  case (Cons baseURL rest)
  then show ?case
    by (cases "network baseURL"; cases "load_from_sources network onProgress rest") simp_all
qed

lemma actions_initialize: "actions (fst (snd (initialize network onProgress st))) = []"
  using actions_load_from_sources [of network onProgress cdnSources]
  by (cases "load_from_sources network onProgress cdnSources") (simp add: initialize_def)

lemma actions_initializeFFmpeg:
  "actions (fst (snd (initializeFFmpeg network onProgress st))) = []"
proof (cases "initialize network onProgress st")
  case (fields st' events ready)
  with actions_initialize [of network onProgress st] show ?thesis
    by (cases ready) (simp_all add: initializeFFmpeg_def)
qed

lemma actions_ensure_initialized:
  "actions (fst (snd (ensure_initialized e st nclips))) = []"
proof (cases "isFFmpegInitialized st")
  case True
  then show ?thesis by (simp add: ensure_initialized_def)
next
  case False
  let ?report = "\<lambda>ratio. \<lparr>clipIndex = 0, clipTotal = nclips,
                            processingProgress = ratio * 100, status = preparing,
                            progress_message = TextLoading (Math_round (ratio * 100))\<rparr>"
  show ?thesis
    using False actions_initializeFFmpeg [of "env_network e" ?report st]
    by (cases "initializeFFmpeg (env_network e) ?report st") (simp add: ensure_initialized_def)
qed

lemma processVideoClip_actions:
  "snd (processVideoClip toString ffmpeg st i videoFile clip settings) = Inr blob
   \<Longrightarrow> actions (fst (processVideoClip toString ffmpeg st i videoFile clip settings))
         = [Transcoded i]"
  "snd (processVideoClip toString ffmpeg st i videoFile clip settings) = Inl thrown
   \<Longrightarrow> actions (fst (processVideoClip toString ffmpeg st i videoFile clip settings)) = []
       \<or> actions (fst (processVideoClip toString ffmpeg st i videoFile clip settings))
           = [Transcoded i]"
  by (auto simp: processVideoClip_def Let_def split: if_splits engine_run.splits)

lemma export_clip_succeeds_actions:
  assumes "snd (export_clip e st mediaFile settings nclips i clip) = Inr ()"
  shows "actions (fst (export_clip e st mediaFile settings nclips i clip))
           = [Transcoded i, Delivered i]"
proof -
  obtain events r where p: "processVideoClip (env_toString e) (env_ffmpeg e i) st i
      (media_file mediaFile) clip settings = (events, r)"
    by (cases "processVideoClip (env_toString e) (env_ffmpeg e i) st i
      (media_file mediaFile) clip settings")
  with assms obtain blob where r: "r = Inr blob"
    by (cases r) (simp_all add: export_clip_def)
  from processVideoClip_actions(1) [of "env_toString e" "env_ffmpeg e i" st i
      "media_file mediaFile" clip settings blob] p r
  have "actions events = [Transcoded i]" by simp
  with assms p r show ?thesis
    by (cases "env_browser e i") (simp_all add: export_clip_def downloadFile_def actions_append)
qed

lemma export_clip_throws_actions:
  assumes "snd (export_clip e st mediaFile settings nclips i clip) = Inl thrown"
  shows "actions (fst (export_clip e st mediaFile settings nclips i clip)) = []
       \<or> actions (fst (export_clip e st mediaFile settings nclips i clip)) = [Transcoded i]"
proof -
  obtain events r where p: "processVideoClip (env_toString e) (env_ffmpeg e i) st i
      (media_file mediaFile) clip settings = (events, r)"
    by (cases "processVideoClip (env_toString e) (env_ffmpeg e i) st i
      (media_file mediaFile) clip settings")
  show ?thesis
  proof (cases r)
    case (Inl t)
    from processVideoClip_actions(2) [of "env_toString e" "env_ffmpeg e i" st i
      "media_file mediaFile" clip settings t] p Inl
    have "actions events = [] \<or> actions events = [Transcoded i]" by simp
    with p Inl show ?thesis
      by (simp add: export_clip_def)
  next
    case (Inr blob)
    from processVideoClip_actions(1) [of "env_toString e" "env_ffmpeg e i" st i
      "media_file mediaFile" clip settings blob] p Inr
    have "actions events = [Transcoded i]" by simp
    with assms p Inr show ?thesis
      by (cases "env_browser e i") (simp_all add: export_clip_def downloadFile_def actions_append)
  qed
qed

lemma export_clips_abort:
  assumes "k < length clips"
    and "\<forall>j<k. snd (export_clip e st mediaFile settings nclips (i + j) (clips ! j)) = Inr ()"
    and "snd (export_clip e st mediaFile settings nclips (i + k) (clips ! k)) = Inl thrown"
  shows "export_clips e st mediaFile settings nclips i clips =
           (concat (map (\<lambda>j. fst (export_clip e st mediaFile settings nclips (i + j) (clips ! j)))
                     [0..<Suc k]),
            Inl thrown)"
  using assms
proof (induction clips arbitrary: i k)
  case Nil
  then show ?case by simp
next
  case (Cons clip rest)
  show ?case
  proof (cases k)
    case 0
    with Cons.prems(3) show ?thesis
      by (cases "export_clip e st mediaFile settings nclips i clip") simp
  next
    case (Suc k')
    with Cons.prems(2) have first: "snd (export_clip e st mediaFile settings nclips i clip) = Inr ()"
      by force
    have "export_clips e st mediaFile settings nclips (Suc i) rest =
           (concat (map (\<lambda>j. fst (export_clip e st mediaFile settings nclips (Suc i + j) (rest ! j)))
                     [0..<Suc k']),
            Inl thrown)"
    proof (rule Cons.IH)
      show "k' < length rest" using Cons.prems(1) Suc by simp
      show "\<forall>j<k'. snd (export_clip e st mediaFile settings nclips (Suc i + j) (rest ! j)) = Inr ()"
        using Cons.prems(2) Suc by force
      show "snd (export_clip e st mediaFile settings nclips (Suc i + k') (rest ! k')) = Inl thrown"
        using Cons.prems(3) Suc by simp
    qed
    moreover have "[0..<Suc (Suc k')] = 0 # map Suc [0..<Suc k']"
      unfolding map_Suc_upt by (rule upt_conv_Cons) simp
    ultimately show ?thesis
      using first Suc
      by (cases "export_clip e st mediaFile settings nclips i clip")
         (simp add: comp_def del: upt_Suc)
  qed
qed

lemma actions_concat_succeeded:
  assumes "\<forall>j<k. actions (f j) = [Transcoded j, Delivered j]"
  shows "actions (concat (map f [0..<k])) = concat (map (\<lambda>j. [Transcoded j, Delivered j]) [0..<k])"
  using assms by (induction k) (simp_all add: actions_append)

text \<open>
  C2. Let the engine be ready when the loop of \<open>exportMultipleClips\<close> begins, let
  the export of every clip before position \<open>k\<close> succeed and let the export of the clip
  at position \<open>k\<close> throw. Then the batch consists of the events of the clips up to
  position \<open>k\<close>, one clip after the other, followed by one report of the status
  \<open>error\<close> with the message of the error thrown, and the error thrown is raised to the
  caller. The engine runs and the files are delivered in turn for the clips before
  \<open>k\<close>; for the clip at \<open>k\<close> the engine runs at most, and nothing is run or
  delivered for a later clip.
\<close>

theorem exportMultipleClips_aborts_at_failure:
  assumes ready: "ensure_initialized e st (length clips) = (st1, events0, Inr ())"
    and k: "k < length clips"
    and before: "\<forall>j<k. snd (export_clip e st1 mediaFile settings (length clips) j (clips ! j))
                         = Inr ()"
    and fails: "snd (export_clip e st1 mediaFile settings (length clips) k (clips ! k))
                  = Inl thrown"
  shows "exportMultipleClips e st clips mediaFile settings =
           (st1,
            events0
              @ concat (map (\<lambda>j. fst (export_clip e st1 mediaFile settings (length clips) j
                                          (clips ! j))) [0..<Suc k])
              @ [Report \<lparr>clipIndex = 0, clipTotal = length clips, processingProgress = 0,
                         status = error, progress_message = TextBatchFailed thrown\<rparr>],
            Inl thrown)
       \<and> actions (fst (snd (exportMultipleClips e st clips mediaFile settings)))
           = concat (map (\<lambda>j. [Transcoded j, Delivered j]) [0..<k])
               @ actions (fst (export_clip e st1 mediaFile settings (length clips) k (clips ! k)))
       \<and> (actions (fst (export_clip e st1 mediaFile settings (length clips) k (clips ! k))) = []
            \<or> actions (fst (export_clip e st1 mediaFile settings (length clips) k (clips ! k)))
                = [Transcoded k])"
proof -
  let ?events = "\<lambda>j. fst (export_clip e st1 mediaFile settings (length clips) j (clips ! j))"
  have loop: "export_clips e st1 mediaFile settings (length clips) 0 clips
                = (concat (map ?events [0..<Suc k]), Inl thrown)"
    using export_clips_abort [of k clips e st1 mediaFile settings "length clips" 0 thrown]
      k before fails by simp
  have run: "exportMultipleClips e st clips mediaFile settings =
           (st1,
            events0 @ concat (map ?events [0..<Suc k])
              @ [Report \<lparr>clipIndex = 0, clipTotal = length clips, processingProgress = 0,
                         status = error, progress_message = TextBatchFailed thrown\<rparr>],
            Inl thrown)"
    by (simp add: exportMultipleClips_def ready loop del: upt_Suc)
  have "actions events0 = []"
    using actions_ensure_initialized [of e st "length clips"] ready by simp
  moreover have "actions (concat (map ?events [0..<k]))
                   = concat (map (\<lambda>j. [Transcoded j, Delivered j]) [0..<k])"
    using before by (intro actions_concat_succeeded) (simp add: export_clip_succeeds_actions)
  ultimately have "actions (fst (snd (exportMultipleClips e st clips mediaFile settings)))
           = concat (map (\<lambda>j. [Transcoded j, Delivered j]) [0..<k]) @ actions (?events k)"
    unfolding run by (simp add: actions_append)
  with run export_clip_throws_actions [OF fails] show ?thesis
    by blast
qed

text \<open>Three clips, of which the second fails in the engine.\<close>

theorem exportMultipleClips_aborts_at_failure_witness:
  "ensure_initialized
        \<lparr>env_toString = (\<lambda>v. ''n''),
         env_network = (\<lambda>baseURL. Loaded),
         env_ffmpeg = (\<lambda>i videoFile command.
                         if i = 1 then ExecFails (External ''codec'') else Output [i]),
         env_browser = (\<lambda>i. Saved),
         env_timestamp = (\<lambda>i. ''t'')\<rparr>
        \<lparr>isLoaded = True, isFFmpegInitialized = True\<rparr>
        (length
        [\<lparr>clip_id = ''c'', mediaId = ''m1'', startTime = 0, endTime = 2,
          cropArea = \<lparr>crop_x = 0, crop_y = 0, crop_width = 640, crop_height = 360\<rparr>,
          thumbnail = ''thumb'', createdAt = 0\<rparr>,
         \<lparr>clip_id = ''c'', mediaId = ''m1'', startTime = 0, endTime = 2,
          cropArea = \<lparr>crop_x = 0, crop_y = 0, crop_width = 640, crop_height = 360\<rparr>,
          thumbnail = ''thumb'', createdAt = 0\<rparr>,
         \<lparr>clip_id = ''c'', mediaId = ''m1'', startTime = 0, endTime = 2,
          cropArea = \<lparr>crop_x = 0, crop_y = 0, crop_width = 640, crop_height = 360\<rparr>,
          thumbnail = ''thumb'', createdAt = 0\<rparr>])
      = (\<lparr>isLoaded = True, isFFmpegInitialized = True\<rparr>, [], Inr ())
   \<and> snd (snd (exportMultipleClips
        \<lparr>env_toString = (\<lambda>v. ''n''),
         env_network = (\<lambda>baseURL. Loaded),
         env_ffmpeg = (\<lambda>i videoFile command.
                         if i = 1 then ExecFails (External ''codec'') else Output [i]),
         env_browser = (\<lambda>i. Saved),
         env_timestamp = (\<lambda>i. ''t'')\<rparr>
        \<lparr>isLoaded = True, isFFmpegInitialized = True\<rparr>
        [\<lparr>clip_id = ''c'', mediaId = ''m1'', startTime = 0, endTime = 2,
          cropArea = \<lparr>crop_x = 0, crop_y = 0, crop_width = 640, crop_height = 360\<rparr>,
          thumbnail = ''thumb'', createdAt = 0\<rparr>,
         \<lparr>clip_id = ''c'', mediaId = ''m1'', startTime = 0, endTime = 2,
          cropArea = \<lparr>crop_x = 0, crop_y = 0, crop_width = 640, crop_height = 360\<rparr>,
          thumbnail = ''thumb'', createdAt = 0\<rparr>,
         \<lparr>clip_id = ''c'', mediaId = ''m1'', startTime = 0, endTime = 2,
          cropArea = \<lparr>crop_x = 0, crop_y = 0, crop_width = 640, crop_height = 360\<rparr>,
          thumbnail = ''thumb'', createdAt = 0\<rparr>]
        \<lparr>media_id = ''m1'', media_kind = Video, media_file = [], url = ''blob:video'',
         dimensions = \<lparr>dim_width = 1920, dim_height = 1080\<rparr>\<rparr>
        \<lparr>format = mp4, quality = 70, fps = None, preset = Some medium\<rparr>))
      = Inl (ProcessingFailed (External ''codec''))
   \<and> actions (fst (snd (exportMultipleClips
        \<lparr>env_toString = (\<lambda>v. ''n''),
         env_network = (\<lambda>baseURL. Loaded),
         env_ffmpeg = (\<lambda>i videoFile command.
                         if i = 1 then ExecFails (External ''codec'') else Output [i]),
         env_browser = (\<lambda>i. Saved),
         env_timestamp = (\<lambda>i. ''t'')\<rparr>
        \<lparr>isLoaded = True, isFFmpegInitialized = True\<rparr>
        [\<lparr>clip_id = ''c'', mediaId = ''m1'', startTime = 0, endTime = 2,
          cropArea = \<lparr>crop_x = 0, crop_y = 0, crop_width = 640, crop_height = 360\<rparr>,
          thumbnail = ''thumb'', createdAt = 0\<rparr>,
         \<lparr>clip_id = ''c'', mediaId = ''m1'', startTime = 0, endTime = 2,
          cropArea = \<lparr>crop_x = 0, crop_y = 0, crop_width = 640, crop_height = 360\<rparr>,
          thumbnail = ''thumb'', createdAt = 0\<rparr>,
         \<lparr>clip_id = ''c'', mediaId = ''m1'', startTime = 0, endTime = 2,
          cropArea = \<lparr>crop_x = 0, crop_y = 0, crop_width = 640, crop_height = 360\<rparr>,
          thumbnail = ''thumb'', createdAt = 0\<rparr>]
        \<lparr>media_id = ''m1'', media_kind = Video, media_file = [], url = ''blob:video'',
         dimensions = \<lparr>dim_width = 1920, dim_height = 1080\<rparr>\<rparr>
        \<lparr>format = mp4, quality = 70, fps = None, preset = Some medium\<rparr>)))
      = [Transcoded 0, Delivered 0, Transcoded 1]
   \<and> last (fst (snd (exportMultipleClips
        \<lparr>env_toString = (\<lambda>v. ''n''),
         env_network = (\<lambda>baseURL. Loaded),
         env_ffmpeg = (\<lambda>i videoFile command.
                         if i = 1 then ExecFails (External ''codec'') else Output [i]),
         env_browser = (\<lambda>i. Saved),
         env_timestamp = (\<lambda>i. ''t'')\<rparr>
        \<lparr>isLoaded = True, isFFmpegInitialized = True\<rparr>
        [\<lparr>clip_id = ''c'', mediaId = ''m1'', startTime = 0, endTime = 2,
          cropArea = \<lparr>crop_x = 0, crop_y = 0, crop_width = 640, crop_height = 360\<rparr>,
          thumbnail = ''thumb'', createdAt = 0\<rparr>,
         \<lparr>clip_id = ''c'', mediaId = ''m1'', startTime = 0, endTime = 2,
          cropArea = \<lparr>crop_x = 0, crop_y = 0, crop_width = 640, crop_height = 360\<rparr>,
          thumbnail = ''thumb'', createdAt = 0\<rparr>,
         \<lparr>clip_id = ''c'', mediaId = ''m1'', startTime = 0, endTime = 2,
          cropArea = \<lparr>crop_x = 0, crop_y = 0, crop_width = 640, crop_height = 360\<rparr>,
          thumbnail = ''thumb'', createdAt = 0\<rparr>]
        \<lparr>media_id = ''m1'', media_kind = Video, media_file = [], url = ''blob:video'',
         dimensions = \<lparr>dim_width = 1920, dim_height = 1080\<rparr>\<rparr>
        \<lparr>format = mp4, quality = 70, fps = None, preset = Some medium\<rparr>)))
      = Report \<lparr>clipIndex = 0, clipTotal = 3, processingProgress = 0, status = error,
                progress_message = TextBatchFailed (ProcessingFailed (External ''codec''))\<rparr>"
  using exportMultipleClips_aborts_at_failure
    [of "\<lparr>env_toString = (\<lambda>v. ''n''),
         env_network = (\<lambda>baseURL. Loaded),
         env_ffmpeg = (\<lambda>i videoFile command.
                         if i = 1 then ExecFails (External ''codec'') else Output [i]),
         env_browser = (\<lambda>i. Saved),
         env_timestamp = (\<lambda>i. ''t'')\<rparr>"
        "\<lparr>isLoaded = True, isFFmpegInitialized = True\<rparr>"
        "[\<lparr>clip_id = ''c'', mediaId = ''m1'', startTime = 0, endTime = 2,
          cropArea = \<lparr>crop_x = 0, crop_y = 0, crop_width = 640, crop_height = 360\<rparr>,
          thumbnail = ''thumb'', createdAt = 0\<rparr>,
         \<lparr>clip_id = ''c'', mediaId = ''m1'', startTime = 0, endTime = 2,
          cropArea = \<lparr>crop_x = 0, crop_y = 0, crop_width = 640, crop_height = 360\<rparr>,
          thumbnail = ''thumb'', createdAt = 0\<rparr>,
         \<lparr>clip_id = ''c'', mediaId = ''m1'', startTime = 0, endTime = 2,
          cropArea = \<lparr>crop_x = 0, crop_y = 0, crop_width = 640, crop_height = 360\<rparr>,
          thumbnail = ''thumb'', createdAt = 0\<rparr>]"
        "\<lparr>isLoaded = True, isFFmpegInitialized = True\<rparr>" "[]" 1
        "\<lparr>media_id = ''m1'', media_kind = Video, media_file = [], url = ''blob:video'',
         dimensions = \<lparr>dim_width = 1920, dim_height = 1080\<rparr>\<rparr>"
        "\<lparr>format = mp4, quality = 70, fps = None, preset = Some medium\<rparr>"
        "ProcessingFailed (External ''codec'')"]
  by (simp add: ensure_initialized_def export_clip_def processVideoClip_def downloadFile_def
        Let_def)

end
